theory Spec2Isabelle
  imports Complex_Main "HOL-Library.Code_Target_Numeral"
begin

section \<open>Binary floating point\<close>

text \<open>
  The program computes with C++ \<open>double\<close> and \<open>float\<close>: IEEE 754 binary64 and binary32,
  rounding to nearest with ties to even. A value is a finite number, a negative zero, an
  infinity or a NaN; the flag of an infinity or a NaN is its sign bit. \<open>Finite 0\<close> is
  the positive zero. The payload of a NaN is not kept.
\<close>

datatype ieee = Finite real | NegZero | Infinity bool | NaN bool

fun real_of :: "ieee \<Rightarrow> real" where
  "real_of (Finite r) = r"
| "real_of _ = 0"

fun sign_bit :: "ieee \<Rightarrow> bool" where
  "sign_bit (Finite r) = (r < 0)"
| "sign_bit NegZero = True"
| "sign_bit (Infinity s) = s"
| "sign_bit (NaN s) = s"

fun is_nan :: "ieee \<Rightarrow> bool" where
  "is_nan (NaN s) = True"
| "is_nan _ = False"

fun is_inf :: "ieee \<Rightarrow> bool" where
  "is_inf (Infinity s) = True"
| "is_inf _ = False"

fun is_zero :: "ieee \<Rightarrow> bool" where
  "is_zero (Finite r) = (r = 0)"
| "is_zero NegZero = True"
| "is_zero _ = False"

definition signed_zero :: "bool \<Rightarrow> ieee" where
  "signed_zero s = (if s then NegZero else Finite 0)"

subsection \<open>Rounding a real number to a format\<close>

fun ilog2 :: "nat \<Rightarrow> nat" where
  "ilog2 n = (if n < 2 then 0 else Suc (ilog2 (n div 2)))"

definition exponent2 :: "real \<Rightarrow> int" where
  \<comment> \<open>the \<open>e\<close> with \<open>2 ^ e \<le> x < 2 ^ (e + 1)\<close>, for \<open>0 < x\<close>\<close>
  "exponent2 x =
     (if 1 \<le> x then int (ilog2 (nat \<lfloor>x\<rfloor>))
      else - int (Suc (ilog2 (nat (\<lceil>1 / x\<rceil> - 1)))))"

definition scale2 :: "real \<Rightarrow> int \<Rightarrow> real" where
  "scale2 x k = (if 0 \<le> k then x * 2 ^ nat k else x / 2 ^ nat (- k))"

definition round_half_even :: "real \<Rightarrow> int" where
  "round_half_even r =
     (let f = \<lfloor>r\<rfloor>; d = r - of_int f
      in if d < 1 / 2 then f else if 1 / 2 < d then f + 1
         else if even f then f else f + 1)"

text \<open>
  \<open>round_ieee p emin emax x\<close> is the value nearest to \<open>x\<close> in the format with \<open>p\<close>
  significant bits and exponents from \<open>emin\<close> to \<open>emax\<close>: the significand is rounded at
  the quantum \<open>2 ^ q\<close> of \<open>x\<close> (that of the subnormal numbers below \<open>2 ^ emin\<close>); a
  result that rounds to nothing is a zero with the sign of \<open>x\<close>, and a result of
  \<open>2 ^ (emax + 1)\<close> or more, whose exponent is above \<open>emax\<close>, is an infinity.
\<close>

definition round_ieee :: "nat \<Rightarrow> int \<Rightarrow> int \<Rightarrow> real \<Rightarrow> ieee" where
  "round_ieee p emin emax x =
     (if x = 0 then Finite 0
      else
        (let q = max (exponent2 \<bar>x\<bar>) emin - int p + 1;
             m = round_half_even (scale2 \<bar>x\<bar> (- q));
             y = scale2 (of_int m) q
         in if m = 0 then signed_zero (x < 0)
            else if emax < exponent2 y then Infinity (x < 0)
            else Finite (if x < 0 then - y else y)))"

definition round_double :: "real \<Rightarrow> ieee" where
  "round_double = round_ieee 53 (- 1022) 1023"

definition round_single :: "real \<Rightarrow> ieee" where
  "round_single = round_ieee 24 (- 126) 127"

subsection \<open>Operations\<close>

text \<open>
  A NaN operand is the result of an operation (the first one when both are); an invalid
  operation gives the default NaN, whose sign bit is set on x86-64. The operations on
  \<open>double\<close> round their exact result with \<open>round_double\<close>.
\<close>

fun fneg :: "ieee \<Rightarrow> ieee" where
  "fneg (Finite r) = (if r = 0 then NegZero else Finite (- r))"
| "fneg NegZero = Finite 0"
| "fneg (Infinity s) = Infinity (\<not> s)"
| "fneg (NaN s) = NaN (\<not> s)"

fun dadd :: "ieee \<Rightarrow> ieee \<Rightarrow> ieee" where
  "dadd (NaN s) b = NaN s"
| "dadd a (NaN t) = NaN t"
| "dadd (Infinity s) (Infinity t) = (if s = t then Infinity s else NaN True)"
| "dadd (Infinity s) b = Infinity s"
| "dadd a (Infinity t) = Infinity t"
| "dadd NegZero NegZero = NegZero"
| "dadd a b = round_double (real_of a + real_of b)"

fun dsub :: "ieee \<Rightarrow> ieee \<Rightarrow> ieee" where
  "dsub (NaN s) b = NaN s"
| "dsub a (NaN t) = NaN t"
| "dsub a b = dadd a (fneg b)"

fun dmul :: "ieee \<Rightarrow> ieee \<Rightarrow> ieee" where
  "dmul (NaN s) b = NaN s"
| "dmul a (NaN t) = NaN t"
| "dmul a b =
     (if (is_inf a \<and> is_zero b) \<or> (is_zero a \<and> is_inf b) then NaN True
      else if is_inf a \<or> is_inf b then Infinity (sign_bit a \<noteq> sign_bit b)
      else if is_zero a \<or> is_zero b then signed_zero (sign_bit a \<noteq> sign_bit b)
      else round_double (real_of a * real_of b))"

fun ddiv :: "ieee \<Rightarrow> ieee \<Rightarrow> ieee" where
  "ddiv (NaN s) b = NaN s"
| "ddiv a (NaN t) = NaN t"
| "ddiv a b =
     (if (is_inf a \<and> is_inf b) \<or> (is_zero a \<and> is_zero b) then NaN True
      else if is_inf a \<or> is_zero b then Infinity (sign_bit a \<noteq> sign_bit b)
      else if is_zero a \<or> is_inf b then signed_zero (sign_bit a \<noteq> sign_bit b)
      else round_double (real_of a / real_of b))"

text \<open>The conversion of a \<open>double\<close> to \<open>float\<close>; the one from \<open>float\<close> to \<open>double\<close> is exact.\<close>

fun double_to_float :: "ieee \<Rightarrow> ieee" where
  "double_to_float (Finite r) = round_single r"
| "double_to_float a = a"

text \<open>The comparison \<open><\<close>; it is false when an operand is a NaN.\<close>

fun fless :: "ieee \<Rightarrow> ieee \<Rightarrow> bool" where
  "fless (NaN s) b = False"
| "fless a (NaN t) = False"
| "fless (Infinity s) (Infinity t) = (s \<and> \<not> t)"
| "fless (Infinity s) b = s"
| "fless a (Infinity t) = (\<not> t)"
| "fless a b = (real_of a < real_of b)"


text \<open>
  The conversion of a \<open>double\<close> to \<open>int\<close> truncates toward zero. Its behaviour is
  undefined for a NaN, for an infinity and when the truncated value does not fit a 32-bit
  \<open>int\<close>; so is that of a signed addition or subtraction that overflows. Undefined
  behaviour is \<open>None\<close>.
\<close>

definition trunc :: "real \<Rightarrow> int" where
  "trunc r = (if 0 \<le> r then \<lfloor>r\<rfloor> else \<lceil>r\<rceil>)"

definition fits_int :: "int \<Rightarrow> bool" where
  "fits_int i \<longleftrightarrow> - (2 ^ 31) \<le> i \<and> i < 2 ^ 31"

fun to_int :: "ieee \<Rightarrow> int option" where
  "to_int (Finite r) = (if fits_int (trunc r) then Some (trunc r) else None)"
| "to_int NegZero = Some 0"
| "to_int a = None"

definition checked :: "int \<Rightarrow> int option" where
  "checked i = (if fits_int i then Some i else None)"

section \<open>The serial bridge \<open>abridge.cpp\<close>: data model\<close>

text \<open>
  The bridge keeps its state in global ROS messages. Each message type is a record that
  holds the fields the bridge reads or writes. The fields are \<open>float64\<close>, except the
  range of a sonar, which is \<open>float32\<close>. A time stamp (\<open>ros::Time\<close>) is a natural number.
\<close>

type_synonym time = nat

record Vector3 =
  vx :: ieee
  vy :: ieee
  vz :: ieee

record Quaternion =
  qx :: ieee
  qy :: ieee
  qz :: ieee
  qw :: ieee

record Twist =
  lin :: Vector3
  ang :: Vector3

record QuaternionStamped =
  q_stamp :: time
  quaternion :: Quaternion

record Imu =
  imu_stamp :: time
  orientation :: Quaternion
  angular_velocity :: Vector3
  linear_acceleration :: Vector3

record Odometry =
  odom_stamp :: time
  position :: Vector3
  pose_orientation :: Quaternion
  twist :: Twist

record Range =
  range_stamp :: time
  range_m :: ieee

text \<open>The globals of the file that the handlers and the parser mutate.\<close>

record globals =
  fingerAngle :: QuaternionStamped
  wristAngle :: QuaternionStamped
  cmd_vel_msg :: Twist
  imu :: Imu
  odom :: Odometry
  sonarLeft :: Range
  sonarCenter :: Range
  sonarRight :: Range

text \<open>The globals as the program starts: every message is zero-initialised.\<close>

definition zero_vector :: Vector3 where
  "zero_vector = \<lparr>vx = Finite 0, vy = Finite 0, vz = Finite 0\<rparr>"

definition zero_quaternion :: Quaternion where
  "zero_quaternion = \<lparr>qx = Finite 0, qy = Finite 0, qz = Finite 0, qw = Finite 0\<rparr>"

definition zero_twist :: Twist where
  "zero_twist = \<lparr>lin = zero_vector, ang = zero_vector\<rparr>"

definition init_globals :: globals where
  "init_globals =
     \<lparr>fingerAngle = \<lparr>q_stamp = 0, quaternion = zero_quaternion\<rparr>,
      wristAngle = \<lparr>q_stamp = 0, quaternion = zero_quaternion\<rparr>,
      cmd_vel_msg = zero_twist,
      imu = \<lparr>imu_stamp = 0, orientation = zero_quaternion,
             angular_velocity = zero_vector, linear_acceleration = zero_vector\<rparr>,
      odom = \<lparr>odom_stamp = 0, position = zero_vector,
              pose_orientation = zero_quaternion, twist = zero_twist\<rparr>,
      sonarLeft = \<lparr>range_stamp = 0, range_m = Finite 0\<rparr>,
      sonarCenter = \<lparr>range_stamp = 0, range_m = Finite 0\<rparr>,
      sonarRight = \<lparr>range_stamp = 0, range_m = Finite 0\<rparr>\<rparr>"

section \<open>Velocity setpoints\<close>

text \<open>The two macros are \<open>double\<close> literals.\<close>

definition MAX_LIN_VEL_CMD :: ieee where
  "MAX_LIN_VEL_CMD = round_double 0.3"

definition MAX_ANG_VEL_CMD :: ieee where
  "MAX_ANG_VEL_CMD = round_double 0.5"

text \<open>\<open>float limit(float val, float max)\<close>, on \<open>float\<close> values.\<close>

definition limit :: "ieee \<Rightarrow> ieee \<Rightarrow> ieee" where
  "limit val mx =
     (if fless mx val then mx else if fless val (fneg mx) then fneg mx else val)"

text \<open>
  \<open>driveCommandHandler\<close> copies the whole message into \<open>cmd_vel_msg\<close>, then limits
  \<open>linear.x\<close> and \<open>angular.z\<close>; both calls pass \<open>MAX_LIN_VEL_CMD\<close>. The two \<open>double\<close>
  arguments of a call are converted to \<open>float\<close>, and the \<open>float\<close> that it returns is
  stored in the \<open>double\<close> field.
\<close>

definition driveCommandHandler :: "Twist \<Rightarrow> globals \<Rightarrow> globals" where
  "driveCommandHandler message g =
     (let g1 = g\<lparr>cmd_vel_msg := message\<rparr>;
          g2 = g1\<lparr>cmd_vel_msg := (cmd_vel_msg g1)
                 \<lparr>lin := (lin (cmd_vel_msg g1))
                    \<lparr>vx := limit (double_to_float (vx (lin (cmd_vel_msg g1))))
                                 (double_to_float MAX_LIN_VEL_CMD)\<rparr>\<rparr>\<rparr>
      in g2\<lparr>cmd_vel_msg := (cmd_vel_msg g2)
                 \<lparr>ang := (ang (cmd_vel_msg g2))
                    \<lparr>vz := limit (double_to_float (vz (ang (cmd_vel_msg g2))))
                                 (double_to_float MAX_LIN_VEL_CMD)\<rparr>\<rparr>\<rparr>)"

section \<open>Motor commands\<close>

text \<open>Decimal numerals, as \<open>%d\<close> prints them.\<close>

fun show_nat :: "nat \<Rightarrow> string" where
  "show_nat n =
     (if n < 10 then [char_of (48 + n)]
      else show_nat (n div 10) @ [char_of (48 + n mod 10)])"

definition show_int :: "int \<Rightarrow> string" where
  "show_int i = (if i < 0 then ''-'' @ show_nat (nat (- i)) else show_nat (nat i))"

text \<open>\<open>float Kp = 10\<close>; in the product it is converted to \<open>double\<close>.\<close>

definition Kp :: ieee where
  "Kp = Finite 10"

text \<open>
  \<open>calculateMotorCommands\<close> returns \<open>motor_left\<close>, \<open>motor_right\<close> and the command that
  it sends. \<open>sprintf\<close> writes the command and a final zero byte into \<open>char moveCmd[16]\<close>:
  a command of 16 characters or more overflows the array.
\<close>

definition calculateMotorCommands :: "globals \<Rightarrow> (int \<times> int \<times> string) option" where
  "calculateMotorCommands g =
     (let err_linear_x = dsub (vx (lin (twist (odom g)))) (vx (lin (cmd_vel_msg g)));
          err_angular_z = dsub (vz (ang (twist (odom g)))) (vz (ang (cmd_vel_msg g)))
      in case to_int (dmul err_linear_x Kp) of None \<Rightarrow> None
         | Some v_x \<Rightarrow>
        (case to_int (dmul err_angular_z Kp) of None \<Rightarrow> None
         | Some v_z \<Rightarrow>
        (case checked (v_x - v_z) of None \<Rightarrow> None
         | Some motor_left \<Rightarrow>
        (case checked (v_x + v_z) of None \<Rightarrow> None
         | Some motor_right \<Rightarrow>
            (let moveCmd = ''v,'' @ show_int motor_left @ '','' @ show_int motor_right
                           @ [CHR 0x0A]
             in if length moveCmd < 16 then Some (motor_left, motor_right, moveCmd)
                else None)))))"

section \<open>Reading the telemetry\<close>

subsection \<open>Splitting with \<open>getline\<close>\<close>

text \<open>
  \<open>while (getline(stream, word, delim)) push_back(word)\<close>: characters are read up to
  the delimiter, which is dropped. A word that ends at the end of the input is kept
  when it is not empty; when nothing is left to read \<open>getline\<close> fails, so an input that
  ends in the delimiter has no empty last word.
\<close>

fun getline_words :: "char \<Rightarrow> string \<Rightarrow> string \<Rightarrow> string list" where
  "getline_words delim word [] = (if word = [] then [] else [word])"
| "getline_words delim word (c # cs) =
     (if c = delim then word # getline_words delim [] cs
      else getline_words delim (word @ [c]) cs)"

definition split :: "char \<Rightarrow> string \<Rightarrow> string list" where
  "split delim str = getline_words delim [] str"

subsection \<open>The C library's \<open>atof\<close>\<close>

text \<open>
  \<open>atof\<close> is \<open>strtod\<close> without an end pointer. It skips white space and reads an optional
  sign; then a hexadecimal number (\<open>0x\<close>, hexadecimal digits with an optional point, an
  optional binary exponent after \<open>p\<close>), or a decimal number (digits with an optional
  point, an optional exponent after \<open>e\<close>), or \<open>inf\<close>, or \<open>nan\<close>, the last two in any
  case; a number needs a digit, and an exponent without a digit is not read. What
  follows is ignored. The result is the \<open>double\<close> nearest to the number, with the sign
  read; when nothing can be read it is the positive zero. No error is reported.
\<close>

definition isspace :: "char \<Rightarrow> bool" where
  "isspace c \<longleftrightarrow> c = CHR '' '' \<or> (9 \<le> (of_char c :: nat) \<and> (of_char c :: nat) \<le> 13)"

definition isdigit :: "char \<Rightarrow> bool" where
  "isdigit c \<longleftrightarrow> 48 \<le> (of_char c :: nat) \<and> (of_char c :: nat) \<le> 57"

definition lower :: "char \<Rightarrow> char" where
  "lower c =
     (if 65 \<le> (of_char c :: nat) \<and> (of_char c :: nat) \<le> 90
      then char_of ((of_char c :: nat) + 32) else c)"

definition isxdigit :: "char \<Rightarrow> bool" where
  "isxdigit c \<longleftrightarrow>
     isdigit c \<or> (97 \<le> (of_char (lower c) :: nat) \<and> (of_char (lower c) :: nat) \<le> 102)"

definition digit_val :: "char \<Rightarrow> nat" where
  "digit_val c =
     (if isdigit c then (of_char c :: nat) - 48 else (of_char (lower c) :: nat) - 87)"

definition digits_val :: "nat \<Rightarrow> string \<Rightarrow> nat" where
  "digits_val base ds = foldl (\<lambda>a c. base * a + digit_val c) 0 ds"

definition read_sign :: "string \<Rightarrow> bool \<times> string" where
  "read_sign s =
     (case s of [] \<Rightarrow> (False, [])
      | c # r \<Rightarrow> if c = CHR ''-'' then (True, r)
                 else if c = CHR ''+'' then (False, r) else (False, s))"

definition read_mantissa :: "(char \<Rightarrow> bool) \<Rightarrow> string \<Rightarrow> string \<times> string \<times> string" where
  \<comment> \<open>the digits before the point, the digits after it, and the rest\<close>
  "read_mantissa dig s =
     (case dropWhile dig s of [] \<Rightarrow> (takeWhile dig s, [], [])
      | c # r \<Rightarrow> if c = CHR ''.''
                 then (takeWhile dig s, takeWhile dig r, dropWhile dig r)
                 else (takeWhile dig s, [], c # r))"

definition read_exponent :: "char \<Rightarrow> string \<Rightarrow> int" where
  "read_exponent mark s =
     (case s of [] \<Rightarrow> 0
      | c # r \<Rightarrow>
          if lower c = mark then
            (let (neg, r') = read_sign r; ed = takeWhile isdigit r'
             in if ed = [] then 0
                else if neg then - int (digits_val 10 ed) else int (digits_val 10 ed))
          else 0)"

definition scale10 :: "real \<Rightarrow> int \<Rightarrow> real" where
  "scale10 m e = (if 0 \<le> e then m * 10 ^ nat e else m / 10 ^ nat (- e))"

definition signed_double :: "bool \<Rightarrow> real \<Rightarrow> ieee" where
  "signed_double neg v =
     (if v = 0 then signed_zero neg else round_double (if neg then - v else v))"

definition hex_number :: "string \<Rightarrow> real option" where
  "hex_number t =
     (case t of
        z # x # r \<Rightarrow>
          if z = CHR ''0'' \<and> lower x = CHR ''x'' then
            (let (ip, fp, rest) = read_mantissa isxdigit r
             in if ip = [] \<and> fp = [] then None
                else Some (scale2 (real (digits_val 16 (ip @ fp)) / 16 ^ length fp)
                             (read_exponent CHR ''p'' rest)))
          else None
      | _ \<Rightarrow> None)"

definition decimal_number :: "string \<Rightarrow> real option" where
  "decimal_number t =
     (let (ip, fp, rest) = read_mantissa isdigit t
      in if ip = [] \<and> fp = [] then None
         else Some (scale10 (real (digits_val 10 (ip @ fp)) / 10 ^ length fp)
                      (read_exponent CHR ''e'' rest)))"

definition atof :: "string \<Rightarrow> ieee" where
  "atof s =
     (let (neg, t) = read_sign (dropWhile isspace s)
      in case hex_number t of Some v \<Rightarrow> signed_double neg v
         | None \<Rightarrow>
        (case decimal_number t of Some v \<Rightarrow> signed_double neg v
         | None \<Rightarrow>
            if map lower (take 3 t) = ''inf'' then Infinity neg
            else if map lower (take 3 t) = ''nan'' then NaN neg
            else Finite 0))"


subsection \<open>Quaternions of the \<open>tf\<close> library\<close>

text \<open>
  \<open>tf::createQuaternionMsgFromRollPitchYaw\<close> and \<open>tf::createQuaternionMsgFromYaw\<close>
  belong to the \<open>tf\<close> library, which is not part of the file: the parser takes them as a
  parameter.
\<close>

record tf_library =
  createQuaternionMsgFromRollPitchYaw :: "ieee \<Rightarrow> ieee \<Rightarrow> ieee \<Rightarrow> Quaternion"
  createQuaternionMsgFromYaw :: "ieee \<Rightarrow> Quaternion"

subsection \<open>Statements that read fields\<close>

text \<open>
  \<open>dataSet.at(i)\<close> throws \<open>std::out_of_range\<close> when \<open>i\<close> is not below the size of the
  vector. Nothing in the file catches it: the statement that throws assigns nothing,
  the statements before it have already changed the globals, and the ones after it do
  not run.
\<close>

datatype error = OutOfRange

definition vec_at :: "string list \<Rightarrow> nat \<Rightarrow> error + string" where
  "vec_at dataSet i = (if i < length dataSet then Inr (dataSet ! i) else Inl OutOfRange)"

type_synonym stmt = "string list \<Rightarrow> globals \<Rightarrow> error + globals"

definition always :: "(globals \<Rightarrow> globals) \<Rightarrow> stmt" where
  "always upd dataSet g = Inr (upd g)"

definition assign :: "nat \<Rightarrow> (ieee \<Rightarrow> globals \<Rightarrow> globals) \<Rightarrow> stmt" where
  "assign i upd dataSet g =
     (case vec_at dataSet i of Inl e \<Rightarrow> Inl e | Inr w \<Rightarrow> Inr (upd (atof w) g))"

definition assign3 :: "nat \<Rightarrow> nat \<Rightarrow> nat \<Rightarrow> (ieee \<Rightarrow> ieee \<Rightarrow> ieee \<Rightarrow> globals \<Rightarrow> globals) \<Rightarrow> stmt" where
  "assign3 i j k upd dataSet g =
     (case vec_at dataSet i of Inl e \<Rightarrow> Inl e
      | Inr a \<Rightarrow>
     (case vec_at dataSet j of Inl e \<Rightarrow> Inl e
      | Inr b \<Rightarrow>
     (case vec_at dataSet k of Inl e \<Rightarrow> Inl e
      | Inr c \<Rightarrow> Inr (upd (atof a) (atof b) (atof c) g))))"

fun exec :: "stmt list \<Rightarrow> string list \<Rightarrow> globals \<Rightarrow> globals \<times> error option" where
  "exec [] dataSet g = (g, None)"
| "exec (c # cs) dataSet g =
     (case c dataSet g of Inl e \<Rightarrow> (g, Some e) | Inr g' \<Rightarrow> exec cs dataSet g')"

subsection \<open>\<open>parseData\<close>\<close>

text \<open>
  The body of the loop for one sentence, first on the words of the sentence and then on
  the sentence itself; \<open>now\<close> is what \<open>ros::Time::now()\<close> returns there. A field update
  such as \<open>imu.linear_acceleration.x = v\<close> is written with the update functions of the
  records, outermost first. The divisions by \<open>100.0\<close> and the additions are those of
  \<open>double\<close>; the range of a sonar is converted to \<open>float\<close> when it is stored.
\<close>

definition parseFields :: "tf_library \<Rightarrow> time \<Rightarrow> string list \<Rightarrow> globals \<Rightarrow> globals \<times> error option" where
  "parseFields tf now dataSet g =
     (if length dataSet \<ge> 3 \<and> dataSet ! 1 = ''1'' then
        if dataSet ! 0 = ''GRF'' then
          exec
            [always (fingerAngle_update (q_stamp_update (\<lambda>_. now))),
             assign 2 (\<lambda>v. fingerAngle_update (quaternion_update
                (\<lambda>_. createQuaternionMsgFromRollPitchYaw tf v (Finite 0) (Finite 0))))]
            dataSet g
        else if dataSet ! 0 = ''GRW'' then
          exec
            [always (wristAngle_update (q_stamp_update (\<lambda>_. now))),
             assign 2 (\<lambda>v. wristAngle_update (quaternion_update
                (\<lambda>_. createQuaternionMsgFromRollPitchYaw tf v (Finite 0) (Finite 0))))]
            dataSet g
        else if dataSet ! 0 = ''IMU'' then
          exec
            [always (imu_update (imu_stamp_update (\<lambda>_. now))),
             assign 2 (\<lambda>v. imu_update (linear_acceleration_update (vx_update (\<lambda>_. v)))),
             always (imu_update (linear_acceleration_update (vy_update (\<lambda>_. Finite 0)))),
             assign 4 (\<lambda>v. imu_update (linear_acceleration_update (vz_update (\<lambda>_. v)))),
             assign 5 (\<lambda>v. imu_update (angular_velocity_update (vx_update (\<lambda>_. v)))),
             assign 6 (\<lambda>v. imu_update (angular_velocity_update (vy_update (\<lambda>_. v)))),
             assign 7 (\<lambda>v. imu_update (angular_velocity_update (vz_update (\<lambda>_. v)))),
             assign3 8 9 10 (\<lambda>r p y. imu_update (orientation_update
                (\<lambda>_. createQuaternionMsgFromRollPitchYaw tf r p y)))]
            dataSet g
        else if dataSet ! 0 = ''ODOM'' then
          exec
            [always (odom_update (odom_stamp_update (\<lambda>_. now))),
             assign 2 (\<lambda>v. odom_update (position_update
                (vx_update (\<lambda>x. dadd x (ddiv v (Finite 100)))))),
             assign 3 (\<lambda>v. odom_update (position_update
                (vy_update (\<lambda>y. dadd y (ddiv v (Finite 100)))))),
             always (odom_update (position_update (vz_update (\<lambda>_. Finite 0)))),
             assign 4 (\<lambda>v. odom_update (pose_orientation_update
                (\<lambda>_. createQuaternionMsgFromYaw tf v))),
             assign 5 (\<lambda>v. odom_update (twist_update (lin_update
                (vx_update (\<lambda>_. ddiv v (Finite 100)))))),
             assign 6 (\<lambda>v. odom_update (twist_update (lin_update
                (vy_update (\<lambda>_. ddiv v (Finite 100)))))),
             assign 7 (\<lambda>v. odom_update (twist_update (ang_update (vz_update (\<lambda>_. v)))))]
            dataSet g
        else if dataSet ! 0 = ''USL'' then
          exec
            [always (sonarLeft_update (range_stamp_update (\<lambda>_. now))),
             assign 2 (\<lambda>v. sonarLeft_update (range_m_update
                (\<lambda>_. double_to_float (ddiv v (Finite 100)))))]
            dataSet g
        else if dataSet ! 0 = ''USC'' then
          exec
            [always (sonarCenter_update (range_stamp_update (\<lambda>_. now))),
             assign 2 (\<lambda>v. sonarCenter_update (range_m_update
                (\<lambda>_. double_to_float (ddiv v (Finite 100)))))]
            dataSet g
        else if dataSet ! 0 = ''USR'' then
          exec
            [always (sonarRight_update (range_stamp_update (\<lambda>_. now))),
             assign 2 (\<lambda>v. sonarRight_update (range_m_update
                (\<lambda>_. double_to_float (ddiv v (Finite 100)))))]
            dataSet g
        else (g, None)
      else (g, None))"

definition parseSentence :: "tf_library \<Rightarrow> time \<Rightarrow> string \<Rightarrow> globals \<Rightarrow> globals \<times> error option" where
  "parseSentence tf now sentence g = parseFields tf now (split CHR '','' sentence) g"

text \<open>
  The outer loop over the sentences of the input. Sentence number \<open>i\<close> reads the clock
  at \<open>clock i\<close>; an exception leaves the loop, and the function, at once.
\<close>

fun parseSentences :: "tf_library \<Rightarrow> (nat \<Rightarrow> time) \<Rightarrow> nat \<Rightarrow> string list \<Rightarrow> globals \<Rightarrow> globals \<times> error option" where
  "parseSentences tf clock i [] g = (g, None)"
| "parseSentences tf clock i (sentence # rest) g =
     (case parseSentence tf (clock i) sentence g of
        (g', Some e) \<Rightarrow> (g', Some e)
      | (g', None) \<Rightarrow> parseSentences tf clock (Suc i) rest g')"

definition parseData :: "tf_library \<Rightarrow> (nat \<Rightarrow> time) \<Rightarrow> string \<Rightarrow> globals \<Rightarrow> globals \<times> error option" where
  "parseData tf clock str g = parseSentences tf clock 0 (split CHR 0x0A str) g"

section \<open>Gripper commands\<close>

subsection \<open>The C library's \<open>%.4g\<close> conversion\<close>

text \<open>
  \<open>sprintf\<close> with \<open>%.4g\<close> rounds the value to four significant digits (a tie goes
  to the even digit), writes it in fixed notation when its decimal exponent \<open>X\<close> satisfies
  \<open>-4 \<le> X < 4\<close> and in exponent notation otherwise, and removes the trailing zeros of
  the fraction, and the point when no fraction is left. An infinity is \<open>inf\<close> and a NaN
  is \<open>nan\<close>, after the sign.
\<close>

fun ilog10 :: "nat \<Rightarrow> nat" where
  "ilog10 n = (if n < 10 then 0 else Suc (ilog10 (n div 10)))"

definition exponent10 :: "real \<Rightarrow> int" where
  \<comment> \<open>the \<open>X\<close> with \<open>10 ^ X \<le> v < 10 ^ (X + 1)\<close>, for \<open>0 < v\<close>\<close>
  "exponent10 v =
     (if 1 \<le> v then int (ilog10 (nat \<lfloor>v\<rfloor>))
      else - int (Suc (ilog10 (nat (\<lceil>1 / v\<rceil> - 1)))))"

definition pad_zeros :: "nat \<Rightarrow> string \<Rightarrow> string" where
  "pad_zeros n s = replicate (n - length s) CHR ''0'' @ s"

definition strip_zeros :: "string \<Rightarrow> string" where
  "strip_zeros s = rev (dropWhile (\<lambda>c. c = CHR ''0'') (rev s))"

definition with_fraction :: "string \<Rightarrow> string \<Rightarrow> string" where
  "with_fraction ip fp = (if strip_zeros fp = [] then ip else ip @ ''.'' @ strip_zeros fp)"

definition sprintf_g4_pos :: "real \<Rightarrow> string" where
  "sprintf_g4_pos v =
     (let X0 = exponent10 v;
          n0 = nat (round_half_even (scale10 v (3 - X0)));
          X = (if n0 = 10000 then X0 + 1 else X0);
          n = (if n0 = 10000 then 1000 else n0)
      in if - 4 \<le> X \<and> X < 4 then
           (let p = nat (3 - X)
            in with_fraction (show_nat (n div 10 ^ p)) (pad_zeros p (show_nat (n mod 10 ^ p))))
         else
           with_fraction (show_nat (n div 1000)) (pad_zeros 3 (show_nat (n mod 1000)))
           @ ''e'' @ (if X < 0 then ''-'' else ''+'') @ pad_zeros 2 (show_nat (nat \<bar>X\<bar>)))"

fun sprintf_g4 :: "ieee \<Rightarrow> string" where
  "sprintf_g4 (Finite v) =
     (if v = 0 then ''0'' else if v < 0 then ''-'' @ sprintf_g4_pos (- v)
      else sprintf_g4_pos v)"
| "sprintf_g4 NegZero = ''-0''"
| "sprintf_g4 (Infinity s) = (if s then ''-inf'' else ''inf'')"
| "sprintf_g4 (NaN s) = (if s then ''-nan'' else ''nan'')"

subsection \<open>The handlers\<close>

text \<open>
  Each handler takes the \<open>float\<close> of the message and returns the command that it sends to
  the serial port. In the comparison the angle is converted to \<open>double\<close>, and \<open>0.01\<close> is a
  \<open>double\<close> literal.
\<close>

definition fingerAngleHandler :: "ieee \<Rightarrow> string" where
  "fingerAngleHandler angle =
     (if fless angle (round_double 0.01) then ''f,0'' @ [CHR 0x0A]
      else ''f,'' @ sprintf_g4 angle @ [CHR 0x0A])"

definition wristAngleHandler :: "ieee \<Rightarrow> string" where
  "wristAngleHandler angle =
     (if fless angle (round_double 0.01) then ''w,0'' @ [CHR 0x0A]
      else ''w,'' @ sprintf_g4 angle @ [CHR 0x0A])"

section \<open>Notions of the specification\<close>

text \<open>
  The tags that \<open>parseData\<close> knows, and the sentences that the specification calls
  malformed: fewer than three fields, a second field other than \<open>1\<close>, or an unknown tag.
\<close>

definition known_tags :: "string set" where
  "known_tags = {''GRF'', ''GRW'', ''IMU'', ''ODOM'', ''USL'', ''USC'', ''USR''}"

definition malformed :: "string \<Rightarrow> bool" where
  "malformed sentence \<longleftrightarrow>
     length (split CHR '','' sentence) < 3
     \<or> split CHR '','' sentence ! 1 \<noteq> ''1''
     \<or> split CHR '','' sentence ! 0 \<notin> known_tags"




text \<open>
  A stand-in for the \<open>tf\<close> library where a concrete one is needed: it keeps the angles
  that it is given.
\<close>

definition plain_tf :: tf_library where
  "plain_tf =
     \<lparr>createQuaternionMsgFromRollPitchYaw = (\<lambda>r p y. \<lparr>qx = r, qy = p, qz = y, qw = Finite 1\<rparr>),
      createQuaternionMsgFromYaw = (\<lambda>y. \<lparr>qx = Finite 0, qy = Finite 0, qz = y, qw = Finite 1\<rparr>)\<rparr>"

section \<open>Properties of the setpoint handler\<close>

lemma float_MAX_LIN: "double_to_float MAX_LIN_VEL_CMD = Finite (5033165 / 16777216)"
  unfolding MAX_LIN_VEL_CMD_def by code_simp

lemma float_MAX_ANG: "double_to_float MAX_ANG_VEL_CMD = Finite (1 / 2)"
  unfolding MAX_ANG_VEL_CMD_def by code_simp




lemma double_04: "round_double (2 / 5) = Finite (3602879701896397 / 9007199254740992)"
  by code_simp

lemma float_04: "round_single (3602879701896397 / 9007199254740992) = Finite (13421773 / 33554432)"
  by code_simp




lemma float_0375: "round_single (3 / 8) = Finite (3 / 8)"
  by code_simp


lemma stored_angular:
  "vz (ang (cmd_vel_msg (driveCommandHandler m g))) =
     limit (double_to_float (vz (ang m))) (Finite (5033165 / 16777216))"
  by (simp add: driveCommandHandler_def Let_def float_MAX_LIN)




text \<open>
  C1: the stored \<open>angular.z\<close> is not clamped to \<open>\<plusminus>0.5\<close>. The handler passes
  \<open>MAX_LIN_VEL_CMD\<close> to \<open>limit\<close> for the angular velocity too, so it is clamped to the
  \<open>float\<close> nearest to 0.3: an incoming 0.4, and an incoming 0.375, which are within
  \<open>\<plusminus>0.5\<close>, are stored as 0.300000011920929, where \<open>limit\<close> with \<open>MAX_ANG_VEL_CMD\<close>
  leaves the \<open>float\<close> of 0.4, and 0.375 itself.
\<close>

theorem driveCommandHandler_angular_bound_is_linear:
  "vz (ang (cmd_vel_msg (driveCommandHandler m g))) =
     limit (double_to_float (vz (ang m))) (double_to_float MAX_LIN_VEL_CMD)
   \<and> vz (ang (cmd_vel_msg (driveCommandHandler
        \<lparr>lin = zero_vector, ang = \<lparr>vx = Finite 0, vy = Finite 0, vz = round_double 0.4\<rparr>\<rparr>
        init_globals))) = Finite (5033165 / 16777216)
   \<and> limit (double_to_float (round_double 0.4)) (double_to_float MAX_ANG_VEL_CMD)
       = Finite (13421773 / 33554432)
   \<and> vz (ang (cmd_vel_msg (driveCommandHandler
        \<lparr>lin = zero_vector, ang = \<lparr>vx = Finite 0, vy = Finite 0, vz = Finite (3 / 8)\<rparr>\<rparr>
        init_globals))) = Finite (5033165 / 16777216)
   \<and> limit (double_to_float (Finite (3 / 8))) (double_to_float MAX_ANG_VEL_CMD) = Finite (3 / 8)"
  by (simp add: stored_angular limit_def float_MAX_LIN float_MAX_ANG double_04 float_04
      float_0375)

text \<open>
  C10: the handler stores the message as a whole: \<open>linear.y\<close>, \<open>linear.z\<close>, \<open>angular.x\<close>
  and \<open>angular.y\<close> are stored as received, and only \<open>linear.x\<close> and \<open>angular.z\<close> pass
  through \<open>limit\<close>; no other global changes.
\<close>

theorem driveCommandHandler_other_components_stored:
  "vy (lin (cmd_vel_msg (driveCommandHandler m g))) = vy (lin m)
   \<and> vz (lin (cmd_vel_msg (driveCommandHandler m g))) = vz (lin m)
   \<and> vx (ang (cmd_vel_msg (driveCommandHandler m g))) = vx (ang m)
   \<and> vy (ang (cmd_vel_msg (driveCommandHandler m g))) = vy (ang m)
   \<and> driveCommandHandler m g =
       g\<lparr>cmd_vel_msg := m
          \<lparr>lin := (lin m)\<lparr>vx := limit (double_to_float (vx (lin m)))
                                     (double_to_float MAX_LIN_VEL_CMD)\<rparr>,
           ang := (ang m)\<lparr>vz := limit (double_to_float (vz (ang m)))
                                     (double_to_float MAX_LIN_VEL_CMD)\<rparr>\<rparr>\<rparr>"
  by (simp add: driveCommandHandler_def Let_def)

section \<open>Properties of the motor commands\<close>

lemma to_int_Some: "to_int a = Some i \<Longrightarrow> i = trunc (real_of a)"
  by (cases a) (auto simp: trunc_def split: if_splits)

lemma checked_Some: "checked i = Some j \<longleftrightarrow> fits_int i \<and> j = i"
  by (auto simp: checked_def)

lemma checked_None: "checked i = None \<longleftrightarrow> \<not> fits_int i"
  by (auto simp: checked_def)

lemma duty_03:
  "calculateMotorCommands
     (init_globals\<lparr>cmd_vel_msg :=
        \<lparr>lin = \<lparr>vx = round_double 0.3, vy = Finite 0, vz = Finite 0\<rparr>, ang = zero_vector\<rparr>\<rparr>)
     = Some (- 3, - 3, ''v,-3,-3'' @ [CHR 0x0A])"
  by code_simp

lemma duty_019:
  "calculateMotorCommands
     (init_globals\<lparr>odom := (odom init_globals)
        \<lparr>twist := \<lparr>lin = \<lparr>vx = round_double 0.19, vy = Finite 0, vz = Finite 0\<rparr>,
                    ang = \<lparr>vx = Finite 0, vy = Finite 0, vz = round_double (- 0.19)\<rparr>\<rparr>\<rparr>\<rparr>)
     = Some (2, 0, ''v,2,0'' @ [CHR 0x0A])"
  by code_simp

lemma duty_large:
  "calculateMotorCommands
     (init_globals\<lparr>odom := (odom init_globals)
        \<lparr>twist := \<lparr>lin = \<lparr>vx = Finite (10 ^ 10), vy = Finite 0, vz = Finite 0\<rparr>,
                    ang = zero_vector\<rparr>\<rparr>\<rparr>) = None"
  by code_simp

lemma terms_019:
  "trunc (real_of (dmul (dsub (round_double 0.19) (Finite 0)) Kp)) = 1"
  "trunc (real_of (dmul (dsub (round_double (- 0.19)) (Finite 0)) Kp)) = - 1"
  "trunc (real_of (dsub (dmul (dsub (round_double 0.19) (Finite 0)) Kp)
                         (dmul (dsub (round_double (- 0.19)) (Finite 0)) Kp))) = 3"
  by code_simp+

lemma calculateMotorCommands_cases:
  "calculateMotorCommands g =
     (case to_int (dmul (dsub (vx (lin (twist (odom g)))) (vx (lin (cmd_vel_msg g)))) Kp) of
        None \<Rightarrow> None
      | Some a \<Rightarrow>
     (case to_int (dmul (dsub (vz (ang (twist (odom g)))) (vz (ang (cmd_vel_msg g)))) Kp) of
        None \<Rightarrow> None
      | Some b \<Rightarrow>
          if fits_int (a - b) \<and> fits_int (a + b)
             \<and> length (''v,'' @ show_int (a - b) @ '','' @ show_int (a + b) @ [CHR 0x0A]) < 16
          then Some (a - b, a + b,
                 ''v,'' @ show_int (a - b) @ '','' @ show_int (a + b) @ [CHR 0x0A])
          else None))"
  by (simp add: calculateMotorCommands_def Let_def checked_def split: option.splits)

text \<open>
  C6, as the code has it: with the errors \<open>observed - setpoint\<close> and the gain \<open>Kp = 10\<close>, in
  \<open>double\<close> arithmetic, each product \<open>error * Kp\<close> is truncated toward zero to an integer
  first; the left duty is the difference and the right duty the sum of the two integers,
  and the command is \<open>v,left,right\<close> and a newline. The function has a defined result
  exactly when the two products convert to \<open>int\<close>, their difference and sum fit an \<open>int\<close>,
  and the command is shorter than 16 characters. Observed velocity (0, 0) with setpoint
  linear 0.3 and angular 0 gives (-3, -3).
\<close>

theorem calculateMotorCommands_duty:
  "(calculateMotorCommands g = Some (motor_left, motor_right, moveCmd) \<longrightarrow>
      motor_left =
        trunc (real_of (dmul (dsub (vx (lin (twist (odom g)))) (vx (lin (cmd_vel_msg g)))) Kp))
        - trunc (real_of (dmul (dsub (vz (ang (twist (odom g)))) (vz (ang (cmd_vel_msg g)))) Kp))
      \<and> motor_right =
        trunc (real_of (dmul (dsub (vx (lin (twist (odom g)))) (vx (lin (cmd_vel_msg g)))) Kp))
        + trunc (real_of (dmul (dsub (vz (ang (twist (odom g)))) (vz (ang (cmd_vel_msg g)))) Kp))
      \<and> moveCmd = ''v,'' @ show_int motor_left @ '','' @ show_int motor_right @ [CHR 0x0A])
   \<and> (calculateMotorCommands g \<noteq> None \<longleftrightarrow>
        to_int (dmul (dsub (vx (lin (twist (odom g)))) (vx (lin (cmd_vel_msg g)))) Kp) \<noteq> None
      \<and> to_int (dmul (dsub (vz (ang (twist (odom g)))) (vz (ang (cmd_vel_msg g)))) Kp) \<noteq> None
      \<and> fits_int
          (trunc (real_of (dmul (dsub (vx (lin (twist (odom g)))) (vx (lin (cmd_vel_msg g)))) Kp))
           - trunc (real_of (dmul (dsub (vz (ang (twist (odom g)))) (vz (ang (cmd_vel_msg g)))) Kp)))
      \<and> fits_int
          (trunc (real_of (dmul (dsub (vx (lin (twist (odom g)))) (vx (lin (cmd_vel_msg g)))) Kp))
           + trunc (real_of (dmul (dsub (vz (ang (twist (odom g)))) (vz (ang (cmd_vel_msg g)))) Kp)))
      \<and> length (''v,''
           @ show_int
              (trunc (real_of (dmul (dsub (vx (lin (twist (odom g)))) (vx (lin (cmd_vel_msg g)))) Kp))
               - trunc (real_of (dmul (dsub (vz (ang (twist (odom g)))) (vz (ang (cmd_vel_msg g)))) Kp)))
           @ '',''
           @ show_int
              (trunc (real_of (dmul (dsub (vx (lin (twist (odom g)))) (vx (lin (cmd_vel_msg g)))) Kp))
               + trunc (real_of (dmul (dsub (vz (ang (twist (odom g)))) (vz (ang (cmd_vel_msg g)))) Kp)))
           @ [CHR 0x0A]) < 16)
   \<and> Kp = Finite 10
   \<and> calculateMotorCommands
       (init_globals\<lparr>cmd_vel_msg :=
          \<lparr>lin = \<lparr>vx = round_double 0.3, vy = Finite 0, vz = Finite 0\<rparr>, ang = zero_vector\<rparr>\<rparr>)
       = Some (- 3, - 3, ''v,-3,-3'' @ [CHR 0x0A])"
proof -
  let ?pl = "dmul (dsub (vx (lin (twist (odom g)))) (vx (lin (cmd_vel_msg g)))) Kp"
  let ?pa = "dmul (dsub (vz (ang (twist (odom g)))) (vz (ang (cmd_vel_msg g)))) Kp"
  have main: "(calculateMotorCommands g = Some (motor_left, motor_right, moveCmd) \<longrightarrow>
      motor_left = trunc (real_of ?pl) - trunc (real_of ?pa)
      \<and> motor_right = trunc (real_of ?pl) + trunc (real_of ?pa)
      \<and> moveCmd = ''v,'' @ show_int motor_left @ '','' @ show_int motor_right @ [CHR 0x0A])
    \<and> (calculateMotorCommands g \<noteq> None \<longleftrightarrow>
        to_int ?pl \<noteq> None \<and> to_int ?pa \<noteq> None
      \<and> fits_int (trunc (real_of ?pl) - trunc (real_of ?pa))
      \<and> fits_int (trunc (real_of ?pl) + trunc (real_of ?pa))
      \<and> length (''v,'' @ show_int (trunc (real_of ?pl) - trunc (real_of ?pa)) @ '',''
           @ show_int (trunc (real_of ?pl) + trunc (real_of ?pa)) @ [CHR 0x0A]) < 16)"
  proof (cases "to_int ?pl")
    case None
    then show ?thesis
      by (simp add: calculateMotorCommands_cases)
  next
    case l: (Some a)
    then have a: "a = trunc (real_of ?pl)"
      by (rule to_int_Some)
    show ?thesis
    proof (cases "to_int ?pa")
      case None
      with l show ?thesis
        by (simp add: calculateMotorCommands_cases)
    next
      case r: (Some b)
      then have b: "b = trunc (real_of ?pa)"
        by (rule to_int_Some)
      have "calculateMotorCommands g =
          (if fits_int (a - b) \<and> fits_int (a + b)
             \<and> length (''v,'' @ show_int (a - b) @ '','' @ show_int (a + b) @ [CHR 0x0A]) < 16
           then Some (a - b, a + b,
                 ''v,'' @ show_int (a - b) @ '','' @ show_int (a + b) @ [CHR 0x0A])
           else None)"
        using l r by (simp add: calculateMotorCommands_cases)
      then show ?thesis
        unfolding l r a [symmetric] b [symmetric] by auto
    qed
  qed
  from main duty_03 show ?thesis
    by (simp add: Kp_def)
qed

theorem calculateMotorCommands_duty_witness:
  "calculateMotorCommands
     (init_globals\<lparr>odom := (odom init_globals)
        \<lparr>twist := \<lparr>lin = \<lparr>vx = round_double 0.19, vy = Finite 0, vz = Finite 0\<rparr>,
                    ang = \<lparr>vx = Finite 0, vy = Finite 0, vz = round_double (- 0.19)\<rparr>\<rparr>\<rparr>\<rparr>)
     = Some (2, 0, ''v,2,0'' @ [CHR 0x0A])
   \<and> trunc (real_of (dmul (dsub (round_double 0.19) (Finite 0)) Kp)) = 1
   \<and> trunc (real_of (dmul (dsub (round_double (- 0.19)) (Finite 0)) Kp)) = - 1"
  using calculateMotorCommands_duty [of "init_globals\<lparr>odom := (odom init_globals)
        \<lparr>twist := \<lparr>lin = \<lparr>vx = round_double 0.19, vy = Finite 0, vz = Finite 0\<rparr>,
                    ang = \<lparr>vx = Finite 0, vy = Finite 0, vz = round_double (- 0.19)\<rparr>\<rparr>\<rparr>\<rparr>"
      2 0 "''v,2,0'' @ [CHR 0x0A]"]
    duty_019 terms_019
  by simp

text \<open>
  C6 as it is written fails twice. With the left and the right duty the truncated
  difference and the truncated sum of the two products: for an observed linear velocity
  0.19 and angular velocity -0.19 against a zero setpoint the products are 1.9 and -1.9, the
  program sends \<open>1 - (-1) = 2\<close> to the left motor, and the difference 3.8 truncates to 3.
  And not every pair has duties: for an observed linear velocity of \<open>10 ^ 10\<close> the
  conversion to \<open>int\<close> is undefined.
\<close>

theorem calculateMotorCommands_truncated_sum_counterexample:
  "calculateMotorCommands
     (init_globals\<lparr>odom := (odom init_globals)
        \<lparr>twist := \<lparr>lin = \<lparr>vx = round_double 0.19, vy = Finite 0, vz = Finite 0\<rparr>,
                    ang = \<lparr>vx = Finite 0, vy = Finite 0, vz = round_double (- 0.19)\<rparr>\<rparr>\<rparr>\<rparr>)
     = Some (2, 0, ''v,2,0'' @ [CHR 0x0A])
   \<and> trunc (real_of (dsub (dmul (dsub (round_double 0.19) (Finite 0)) Kp)
                           (dmul (dsub (round_double (- 0.19)) (Finite 0)) Kp))) = 3
   \<and> calculateMotorCommands
     (init_globals\<lparr>odom := (odom init_globals)
        \<lparr>twist := \<lparr>lin = \<lparr>vx = Finite (10 ^ 10), vy = Finite 0, vz = Finite 0\<rparr>,
                    ang = zero_vector\<rparr>\<rparr>\<rparr>) = None"
  using duty_019 terms_019(3) duty_large by blast

section \<open>Properties of the gripper handlers\<close>

text \<open>
  C7: the handlers compare the angle itself with 0.01, not its magnitude. The angle -1,
  whose magnitude is not below 0.01, is sent as \<open>f,0\<close> (\<open>w,0\<close> for the wrist), where its
  four significant digits are \<open>f,-1\<close>. The angle 0.005 gives \<open>f,0\<close> and 1.2345678 gives
  \<open>f,1.235\<close>.
\<close>

theorem angleHandlers_negative_angle:
  "fingerAngleHandler (Finite (- 1)) = ''f,0'' @ [CHR 0x0A]
   \<and> wristAngleHandler (Finite (- 1)) = ''w,0'' @ [CHR 0x0A]
   \<and> \<not> \<bar>- 1 :: real\<bar> < 0.01
   \<and> ''f,'' @ sprintf_g4 (Finite (- 1)) @ [CHR 0x0A] = ''f,-1'' @ [CHR 0x0A]
   \<and> fingerAngleHandler (round_single 0.005) = ''f,0'' @ [CHR 0x0A]
   \<and> fingerAngleHandler (round_single 1.2345678) = ''f,1.235'' @ [CHR 0x0A]
   \<and> wristAngleHandler (round_single 1.2345678) = ''w,1.235'' @ [CHR 0x0A]"
proof -
  have "fingerAngleHandler (Finite (- 1)) = ''f,0'' @ [CHR 0x0A]"
    by code_simp
  moreover have "wristAngleHandler (Finite (- 1)) = ''w,0'' @ [CHR 0x0A]"
    by code_simp
  moreover have "sprintf_g4 (Finite (- 1)) = ''-1''"
    by code_simp
  moreover have "fingerAngleHandler (round_single 0.005) = ''f,0'' @ [CHR 0x0A]"
    by code_simp
  moreover have "fingerAngleHandler (round_single 1.2345678) = ''f,1.235'' @ [CHR 0x0A]"
    by code_simp
  moreover have "wristAngleHandler (round_single 1.2345678) = ''w,1.235'' @ [CHR 0x0A]"
    by code_simp
  ultimately show ?thesis
    by simp
qed

section \<open>Properties of the telemetry parser\<close>

lemma vec_at_in: "i < length ds \<Longrightarrow> vec_at ds i = Inr (ds ! i)"
  by (simp add: vec_at_def)

lemma assign_in: "i < length ds \<Longrightarrow> assign i upd ds g = Inr (upd (atof (ds ! i)) g)"
  by (simp add: assign_def vec_at_def)

lemma assign_out: "length ds \<le> i \<Longrightarrow> assign i upd ds g = Inl OutOfRange"
  by (simp add: assign_def vec_at_def)


lemma always_run: "always upd ds g = Inr (upd g)"
  by (simp add: always_def)

lemma malformed_discarded: "malformed s \<Longrightarrow> parseSentence tf now s g = (g, None)"
  unfolding malformed_def known_tags_def parseSentence_def parseFields_def by auto

lemma parseSentences_all_discarded:
  "(\<forall>s \<in> set ss. \<forall>now. parseSentence tf now s g = (g, None)) \<Longrightarrow>
   parseSentences tf clock i ss g = (g, None)"
  by (induction ss arbitrary: i) simp_all

subsection \<open>What each complete record does\<close>




lemma parseFields_ODOM:
  assumes "length ds \<ge> 8" "ds ! 1 = ''1''" "ds ! 0 = ''ODOM''"
  shows "parseFields tf now ds g =
     (g\<lparr>odom := (odom g)
         \<lparr>odom_stamp := now,
          position := (position (odom g))
            \<lparr>vx := dadd (vx (position (odom g))) (ddiv (atof (ds ! 2)) (Finite 100)),
             vy := dadd (vy (position (odom g))) (ddiv (atof (ds ! 3)) (Finite 100)),
             vz := Finite 0\<rparr>,
          pose_orientation := createQuaternionMsgFromYaw tf (atof (ds ! 4)),
          twist := (twist (odom g))
            \<lparr>lin := (lin (twist (odom g)))
               \<lparr>vx := ddiv (atof (ds ! 5)) (Finite 100),
                vy := ddiv (atof (ds ! 6)) (Finite 100)\<rparr>,
             ang := (ang (twist (odom g)))\<lparr>vz := atof (ds ! 7)\<rparr>\<rparr>\<rparr>\<rparr>, None)"
  using assms by (simp add: parseFields_def assign_in always_run)

lemma parseFields_USL:
  assumes "length ds \<ge> 3" "ds ! 1 = ''1''" "ds ! 0 = ''USL''"
  shows "parseFields tf now ds g =
     (g\<lparr>sonarLeft := (sonarLeft g)
         \<lparr>range_stamp := now,
          range_m := double_to_float (ddiv (atof (ds ! 2)) (Finite 100))\<rparr>\<rparr>, None)"
  using assms by (simp add: parseFields_def assign_in always_run)

lemma parseFields_USC:
  assumes "length ds \<ge> 3" "ds ! 1 = ''1''" "ds ! 0 = ''USC''"
  shows "parseFields tf now ds g =
     (g\<lparr>sonarCenter := (sonarCenter g)
         \<lparr>range_stamp := now,
          range_m := double_to_float (ddiv (atof (ds ! 2)) (Finite 100))\<rparr>\<rparr>, None)"
  using assms by (simp add: parseFields_def assign_in always_run)

lemma parseFields_USR:
  assumes "length ds \<ge> 3" "ds ! 1 = ''1''" "ds ! 0 = ''USR''"
  shows "parseFields tf now ds g =
     (g\<lparr>sonarRight := (sonarRight g)
         \<lparr>range_stamp := now,
          range_m := double_to_float (ddiv (atof (ds ! 2)) (Finite 100))\<rparr>\<rparr>, None)"
  using assms by (simp add: parseFields_def assign_in always_run)

subsection \<open>Under-length records\<close>

text \<open>
  Every valid \<open>IMU\<close> sentence with three to ten fields, and every valid \<open>ODOM\<close> sentence
  with three to seven, ends in \<open>std::out_of_range\<close> after its first statements have run.
\<close>

lemma parseFields_IMU_short:
  assumes "3 \<le> length ds" "length ds < 11" "ds ! 1 = ''1''" "ds ! 0 = ''IMU''"
  shows "snd (parseFields tf now ds g) = Some OutOfRange
       \<and> imu_stamp (imu (fst (parseFields tf now ds g))) = now"
proof -
  from assms(1,2) consider "length ds = 3" | "length ds = 4" | "length ds = 5"
    | "length ds = 6" | "length ds = 7" | "length ds = 8" | "length ds = 9" | "length ds = 10"
    by linarith
  then show ?thesis
    using assms(3,4)
    by cases (simp_all add: parseFields_def assign_def assign3_def always_def vec_at_def)
qed

lemma parseFields_ODOM_short:
  assumes "3 \<le> length ds" "length ds < 8" "ds ! 1 = ''1''" "ds ! 0 = ''ODOM''"
  shows "snd (parseFields tf now ds g) = Some OutOfRange
       \<and> odom_stamp (odom (fst (parseFields tf now ds g))) = now
       \<and> vx (position (odom (fst (parseFields tf now ds g)))) =
           dadd (vx (position (odom g))) (ddiv (atof (ds ! 2)) (Finite 100))"
proof -
  from assms(1,2) consider "length ds = 3" | "length ds = 4" | "length ds = 5"
    | "length ds = 6" | "length ds = 7"
    by linarith
  then show ?thesis
    using assms(3,4)
    by cases (simp_all add: parseFields_def assign_def always_def vec_at_def)
qed

subsection \<open>Fields that are not numbers\<close>





subsection \<open>Concrete sentences\<close>

lemma split_short: "split CHR '','' ''USL,1'' = [''USL'', ''1'']"
  by code_simp

lemma split_flag0: "split CHR '','' ''USL,0,150.0'' = [''USL'', ''0'', ''150.0'']"
  by code_simp

lemma split_tag: "split CHR '','' ''XYZ,1,150.0'' = [''XYZ'', ''1'', ''150.0'']"
  by code_simp

lemma lines_noise:
  "split CHR 0x0A (''USL,1'' @ [CHR 0x0A] @ ''USL,0,150.0'' @ [CHR 0x0A] @ ''XYZ,1,150.0'' @ [CHR 0x0A])
     = [''USL,1'', ''USL,0,150.0'', ''XYZ,1,150.0'']"
  by code_simp

lemma split_usl: "split CHR '','' ''USL,1,150.0'' = [''USL'', ''1'', ''150.0'']"
  by code_simp

lemma lines_usl: "split CHR 0x0A (''USL,1,150.0'' @ [CHR 0x0A]) = [''USL,1,150.0'']"
  by code_simp

lemma range_150: "double_to_float (ddiv (atof ''150.0'') (Finite 100)) = Finite (3 / 2)"
  by code_simp

lemma split_usl10: "split CHR '','' ''USL,1,10'' = [''USL'', ''1'', ''10'']"
  by code_simp

lemma range_10: "double_to_float (ddiv (atof ''10'') (Finite 100)) = Finite (13421773 / 134217728)"
  by code_simp

lemma split_odom10:
  "split CHR '','' ''ODOM,1,10.0,0,0,0,0,0'' = [''ODOM'', ''1'', ''10.0'', ''0'', ''0'', ''0'', ''0'', ''0'']"
  by code_simp

lemma split_odom5:
  "split CHR '','' ''ODOM,1,5.0,0,0,0,0,0'' = [''ODOM'', ''1'', ''5.0'', ''0'', ''0'', ''0'', ''0'', ''0'']"
  by code_simp

lemma lines_odom:
  "split CHR 0x0A (''ODOM,1,10.0,0,0,0,0,0'' @ [CHR 0x0A] @ ''ODOM,1,5.0,0,0,0,0,0'' @ [CHR 0x0A]) =
     [''ODOM,1,10.0,0,0,0,0,0'', ''ODOM,1,5.0,0,0,0,0,0'']"
  by code_simp

lemma step_10:
  "dadd (Finite 0) (ddiv (atof ''10.0'') (Finite 100)) = Finite (3602879701896397 / 36028797018963968)"
  by code_simp

lemma step_5:
  "dadd (Finite (3602879701896397 / 36028797018963968)) (ddiv (atof ''5.0'') (Finite 100))
     = Finite (1351079888211149 / 9007199254740992)"
  by code_simp

lemma quotient_10:
  "ddiv (atof ''10.0'') (Finite 100) = Finite (3602879701896397 / 36028797018963968)"
  by code_simp

lemma quotient_0: "ddiv (atof ''0'') (Finite 100) = Finite 0"
  by code_simp

lemma atof_0: "atof ''0'' = Finite 0"
  by code_simp

lemma atof_5: "atof ''5'' = Finite 5"
  by code_simp

lemma double_015: "round_double (3 / 20) = Finite (5404319552844595 / 36028797018963968)"
  by code_simp

lemma split_imu_short: "split CHR '','' ''IMU,1,5'' = [''IMU'', ''1'', ''5'']"
  by code_simp

lemma split_odom_short: "split CHR '','' ''ODOM,1,10.0'' = [''ODOM'', ''1'', ''10.0'']"
  by code_simp




lemma range_0: "double_to_float (ddiv (Finite 0) (Finite 100)) = Finite 0"
  by code_simp

text \<open>
  C3: a sentence with fewer than three fields, or whose second field is not \<open>1\<close>, or whose
  first field is not a known tag, changes no global and raises nothing; an input made of
  such sentences only leaves \<open>parseData\<close> with the globals as they were.
\<close>

theorem parseSentence_malformed_discarded:
  "(length (split CHR '','' s) < 3
      \<or> split CHR '','' s ! 1 \<noteq> ''1''
      \<or> split CHR '','' s ! 0 \<notin> {''GRF'', ''GRW'', ''IMU'', ''ODOM'', ''USL'', ''USC'', ''USR''}
     \<longrightarrow> parseSentence tf now s g = (g, None))
   \<and> ((\<forall>sentence \<in> set (split CHR 0x0A str). malformed sentence)
     \<longrightarrow> parseData tf clock str g = (g, None))"
proof -
  have one: "parseSentence tf now s g = (g, None)"
    if "length (split CHR '','' s) < 3
      \<or> split CHR '','' s ! 1 \<noteq> ''1''
      \<or> split CHR '','' s ! 0 \<notin> {''GRF'', ''GRW'', ''IMU'', ''ODOM'', ''USL'', ''USC'', ''USR''}"
    using that by (intro malformed_discarded) (simp add: malformed_def known_tags_def)
  have all: "parseData tf clock str g = (g, None)"
    if "\<forall>sentence \<in> set (split CHR 0x0A str). malformed sentence"
    unfolding parseData_def using that
    by (intro parseSentences_all_discarded) (simp add: malformed_discarded)
  from one all show ?thesis by blast
qed

theorem parseSentence_malformed_discarded_witness:
  "parseSentence plain_tf 1 ''USL,1'' init_globals = (init_globals, None)
   \<and> parseSentence plain_tf 1 ''USL,0,150.0'' init_globals = (init_globals, None)
   \<and> parseSentence plain_tf 1 ''XYZ,1,150.0'' init_globals = (init_globals, None)
   \<and> parseData plain_tf (\<lambda>i. i)
        (''USL,1'' @ [CHR 0x0A] @ ''USL,0,150.0'' @ [CHR 0x0A] @ ''XYZ,1,150.0'' @ [CHR 0x0A])
        init_globals = (init_globals, None)"
  using parseSentence_malformed_discarded [of "''USL,1''" plain_tf 1 init_globals "[]" "\<lambda>i. i"]
    parseSentence_malformed_discarded [of "''USL,0,150.0''" plain_tf 1 init_globals "[]" "\<lambda>i. i"]
    parseSentence_malformed_discarded [of "''XYZ,1,150.0''" plain_tf 1 init_globals
      "''USL,1'' @ [CHR 0x0A] @ ''USL,0,150.0'' @ [CHR 0x0A] @ ''XYZ,1,150.0'' @ [CHR 0x0A]" "\<lambda>i. i"]
  unfolding lines_noise
  by (simp add: split_short split_flag0 split_tag malformed_def known_tags_def)

text \<open>
  C2: a valid \<open>IMU\<close> or \<open>ODOM\<close> sentence with three fields is not discarded. The size
  test lets it in, the first statements change the globals (the time stamp and the first
  value), and the next \<open>dataSet.at\<close> throws \<open>std::out_of_range\<close>.
\<close>

theorem parseSentence_short_record_raises:
  "parseSentence tf now ''IMU,1,5'' g =
     (g\<lparr>imu := (imu g)
         \<lparr>imu_stamp := now,
          linear_acceleration := (linear_acceleration (imu g))
             \<lparr>vx := Finite 5, vy := Finite 0\<rparr>\<rparr>\<rparr>,
      Some OutOfRange)
   \<and> parseSentence tf now ''ODOM,1,10.0'' g =
     (g\<lparr>odom := (odom g)
         \<lparr>odom_stamp := now,
          position := (position (odom g))
             \<lparr>vx := dadd (vx (position (odom g)))
                      (Finite (3602879701896397 / 36028797018963968))\<rparr>\<rparr>\<rparr>,
      Some OutOfRange)
   \<and> parseSentence plain_tf 1 ''IMU,1,5'' init_globals \<noteq> (init_globals, None)"
  by (simp add: parseSentence_def split_imu_short split_odom_short parseFields_def
      assign_in assign_out always_run atof_5 quotient_10 init_globals_def)

text \<open>
  C9, as the code has it: a valid sonar sentence (tag \<open>USL\<close>, \<open>USC\<close> or \<open>USR\<close>, flag \<open>1\<close>,
  at least three fields) replaces the range of its own sonar by the third field, as
  \<open>atof\<close> reads it, divided by 100 in \<open>double\<close> arithmetic and converted to \<open>float\<close>, and
  refreshes its time stamp; the other two sonars, and every other global, stay as they
  were. The input \<open>USL,1,150.0\<close> with a newline gives a left range of exactly 1.5.
\<close>

theorem parseSentence_sonar:
  assumes "length (split CHR '','' s) \<ge> 3" "split CHR '','' s ! 1 = ''1''"
  shows
    "(split CHR '','' s ! 0 = ''USL'' \<longrightarrow> parseSentence tf now s g =
        (g\<lparr>sonarLeft := (sonarLeft g)
            \<lparr>range_stamp := now,
             range_m := double_to_float (ddiv (atof (split CHR '','' s ! 2)) (Finite 100))\<rparr>\<rparr>,
         None))
     \<and> (split CHR '','' s ! 0 = ''USC'' \<longrightarrow> parseSentence tf now s g =
        (g\<lparr>sonarCenter := (sonarCenter g)
            \<lparr>range_stamp := now,
             range_m := double_to_float (ddiv (atof (split CHR '','' s ! 2)) (Finite 100))\<rparr>\<rparr>,
         None))
     \<and> (split CHR '','' s ! 0 = ''USR'' \<longrightarrow> parseSentence tf now s g =
        (g\<lparr>sonarRight := (sonarRight g)
            \<lparr>range_stamp := now,
             range_m := double_to_float (ddiv (atof (split CHR '','' s ! 2)) (Finite 100))\<rparr>\<rparr>,
         None))
     \<and> parseData tf clock (''USL,1,150.0'' @ [CHR 0x0A]) g =
        (g\<lparr>sonarLeft := (sonarLeft g)\<lparr>range_stamp := clock 0, range_m := Finite 1.5\<rparr>\<rparr>, None)"
proof -
  have "parseData tf clock (''USL,1,150.0'' @ [CHR 0x0A]) g =
      (g\<lparr>sonarLeft := (sonarLeft g)\<lparr>range_stamp := clock 0, range_m := Finite 1.5\<rparr>\<rparr>, None)"
    unfolding parseData_def lines_usl
    by (simp add: parseSentence_def split_usl parseFields_USL range_150)
  with assms show ?thesis
    by (simp add: parseSentence_def parseFields_USL parseFields_USC parseFields_USR)
qed

theorem parseSentence_sonar_witness:
  "parseSentence plain_tf 7 ''USL,1,150.0'' init_globals =
     (init_globals\<lparr>sonarLeft := \<lparr>range_stamp = 7, range_m = Finite 1.5\<rparr>\<rparr>, None)"
  using parseSentence_sonar [of "''USL,1,150.0''" plain_tf 7 init_globals]
  by (simp add: split_usl range_150 init_globals_def)

text \<open>
  C9 as it is written, with the exact quotient, fails: the sentence \<open>USL,1,10\<close> stores
  \<open>13421773 / 134217728 = 0.100000001490116\<close>, not 0.1.
\<close>

theorem parseSentence_sonar_exact_counterexample:
  "range_m (sonarLeft (fst (parseSentence plain_tf 7 ''USL,1,10'' init_globals)))
     = Finite (13421773 / 134217728)
   \<and> range_m (sonarLeft (fst (parseSentence plain_tf 7 ''USL,1,10'' init_globals)))
     \<noteq> Finite (10 / 100)"
  by (simp add: parseSentence_def split_usl10 parseFields_USL range_10)

text \<open>
  C4, as the code has it: a valid \<open>ODOM\<close> sentence with its eight fields adds the third
  and the fourth field, divided by 100, to the stored position \<open>x\<close> and \<open>y\<close>, sets position
  \<open>z\<close> to 0, and replaces the orientation (from the yaw field), the linear velocities \<open>x\<close>
  and \<open>y\<close> (divided by 100) and the angular velocity \<open>z\<close> (as it is); the divisions and
  the additions are those of \<open>double\<close>. Two \<open>ODOM\<close> sentences with \<open>x\<close> fields 10.0 and
  5.0, from the initial globals, give the position
  \<open>x = 1351079888211149 / 9007199254740992 = 0.15000000000000002\<close>.
\<close>

theorem parseSentence_odom:
  assumes "length (split CHR '','' s) \<ge> 8" "split CHR '','' s ! 0 = ''ODOM''"
    "split CHR '','' s ! 1 = ''1''"
  shows
    "parseSentence tf now s g =
       (g\<lparr>odom := (odom g)
           \<lparr>odom_stamp := now,
            position := (position (odom g))
              \<lparr>vx := dadd (vx (position (odom g)))
                       (ddiv (atof (split CHR '','' s ! 2)) (Finite 100)),
               vy := dadd (vy (position (odom g)))
                       (ddiv (atof (split CHR '','' s ! 3)) (Finite 100)),
               vz := Finite 0\<rparr>,
            pose_orientation := createQuaternionMsgFromYaw tf (atof (split CHR '','' s ! 4)),
            twist := (twist (odom g))
              \<lparr>lin := (lin (twist (odom g)))
                 \<lparr>vx := ddiv (atof (split CHR '','' s ! 5)) (Finite 100),
                  vy := ddiv (atof (split CHR '','' s ! 6)) (Finite 100)\<rparr>,
               ang := (ang (twist (odom g)))\<lparr>vz := atof (split CHR '','' s ! 7)\<rparr>\<rparr>\<rparr>\<rparr>, None)
     \<and> vx (position (odom (fst (parseData tf clock
          (''ODOM,1,10.0,0,0,0,0,0'' @ [CHR 0x0A] @ ''ODOM,1,5.0,0,0,0,0,0'' @ [CHR 0x0A])
          init_globals)))) = Finite (1351079888211149 / 9007199254740992)"
proof -
  have "vx (position (odom (fst (parseData tf clock
          (''ODOM,1,10.0,0,0,0,0,0'' @ [CHR 0x0A] @ ''ODOM,1,5.0,0,0,0,0,0'' @ [CHR 0x0A])
          init_globals)))) = Finite (1351079888211149 / 9007199254740992)"
    unfolding parseData_def lines_odom
    by (simp add: parseSentence_def split_odom10 split_odom5 parseFields_ODOM step_10 step_5
        init_globals_def zero_vector_def)
  with assms show ?thesis
    by (simp add: parseSentence_def parseFields_ODOM)
qed

theorem parseSentence_odom_witness:
  "vx (position (odom (fst (parseSentence plain_tf 3 ''ODOM,1,10.0,0,0,0,0,0'' init_globals))))
     = Finite (3602879701896397 / 36028797018963968)
   \<and> vx (lin (twist (odom (fst (parseSentence plain_tf 3 ''ODOM,1,10.0,0,0,0,0,0''
        init_globals))))) = Finite 0
   \<and> snd (parseSentence plain_tf 3 ''ODOM,1,10.0,0,0,0,0,0'' init_globals) = None"
  using parseSentence_odom [of "''ODOM,1,10.0,0,0,0,0,0''" plain_tf 3 init_globals]
  by (simp add: split_odom10 step_10 quotient_0 init_globals_def zero_vector_def)

text \<open>
  C4 as it is written fails at its own example: the position after the two sentences is
  neither the real number 0.15 nor the \<open>double\<close> nearest to it.
\<close>

theorem parseSentence_odom_exact_counterexample:
  "vx (position (odom (fst (parseData plain_tf (\<lambda>i. i)
      (''ODOM,1,10.0,0,0,0,0,0'' @ [CHR 0x0A] @ ''ODOM,1,5.0,0,0,0,0,0'' @ [CHR 0x0A])
      init_globals)))) \<noteq> Finite 0.15
   \<and> vx (position (odom (fst (parseData plain_tf (\<lambda>i. i)
      (''ODOM,1,10.0,0,0,0,0,0'' @ [CHR 0x0A] @ ''ODOM,1,5.0,0,0,0,0,0'' @ [CHR 0x0A])
      init_globals)))) \<noteq> round_double 0.15"
  unfolding parseData_def lines_odom
  by (simp add: parseSentence_def split_odom10 split_odom5 parseFields_ODOM step_10 step_5
      init_globals_def zero_vector_def double_015)





end
